theory Spec2Isabelle
  imports Main "HOL-Library.Word"
begin

section \<open>nii2dcm: building a DICOM dataset from scratch (dcm.py)\<close>

text \<open>
  The module \<^verbatim>\<open>nii2dcm/dcm.py\<close> has two classes. \<^verbatim>\<open>Dicom\<close> builds a baseline
  dataset: it registers private tags in pydicom's process-wide dictionaries, allocates a
  file-meta header and a \<^verbatim>\<open>FileDataset\<close>, and assigns default attributes.
  \<^verbatim>\<open>DicomMRI\<close> runs the baseline constructor and then assigns the attributes of the MR
  Image Module.

  Everything the constructors touch outside their own object is collected in a record
  \<open>world\<close> that is passed in and returned: the two pydicom dictionaries, the heap of
  file-meta objects, the wall clock and the UID generator.
\<close>

subsection \<open>Python dictionaries\<close>

text \<open>
  A Python \<^verbatim>\<open>dict\<close> keeps insertion order: storing under a key that is present replaces
  the value where it stands, storing under a new key appends. An association list with
  that store operation shows the same order when iterated.
\<close>

type_synonym ('k, 'v) pydict = "('k \<times> 'v) list"

fun dict_set :: "'k \<Rightarrow> 'v \<Rightarrow> ('k, 'v) pydict \<Rightarrow> ('k, 'v) pydict" where
  "dict_set k v [] = [(k, v)]"
| "dict_set k v (p # d) = (if fst p = k then (k, v) # d else p # dict_set k v d)"

definition dict_get :: "('k, 'v) pydict \<Rightarrow> 'k \<Rightarrow> 'v option" where
  "dict_get d k = map_of d k"

text \<open>\<^verbatim>\<open>d.update(other)\<close>: store every item of \<open>other\<close>, in its order.\<close>

fun dict_update :: "('k, 'v) pydict \<Rightarrow> ('k \<times> 'v) list \<Rightarrow> ('k, 'v) pydict" where
  "dict_update d [] = d"
| "dict_update d (p # ps) = dict_update (dict_set (fst p) (snd p) d) ps"

text \<open>\<^verbatim>\<open>dict(pairs)\<close>: a new dictionary filled from a list of pairs.\<close>

definition dict_of_pairs :: "('k \<times> 'v) list \<Rightarrow> ('k, 'v) pydict" where
  "dict_of_pairs ps = dict_update [] ps"

subsection \<open>Values, datasets and the world outside the object\<close>

text \<open>
  The constructors assign three shapes of value: a string, a list of strings
  (\<^verbatim>\<open>ImageType\<close>, \<^verbatim>\<open>ImageOrientationPatient\<close>, \<^verbatim>\<open>ImagePositionPatient\<close>) and one
  integer (\<^verbatim>\<open>BitsAllocated\<close>).
\<close>

datatype dval = Str string | StrList "string list" | IntV int

text \<open>A dataset's data elements, by keyword, as attribute assignment stores them.\<close>

type_synonym elems = "(string, dval) pydict"

text \<open>Tuple definitions: (VR, VM, description, is_retired flag, keyword).\<close>

type_synonym dict_entry = "string \<times> string \<times> string \<times> string \<times> string"

definition entry_keyword :: "dict_entry \<Rightarrow> string" where
  "entry_keyword val = snd (snd (snd (snd val)))"

text \<open>\<^verbatim>\<open>datetime.datetime\<close>, the fields that the two format strings read.\<close>

record datetime =
  year :: nat
  month :: nat
  day :: nat
  hour :: nat
  minute :: nat
  second :: nat
  microsecond :: nat

type_synonym addr = nat

text \<open>
  \<open>DicomDictionary\<close> and \<open>keyword_dict\<close> are pydicom's module-level dictionaries.
  \<open>heap\<close> holds the \<^verbatim>\<open>FileMetaDataset\<close> objects allocated so far, an object's address
  being its index: the \<^verbatim>\<open>Dicom\<close> object and its \<^verbatim>\<open>FileDataset\<close> both refer to one such
  object. \<open>clock\<close> is the sequence of instants that successive calls of
  \<^verbatim>\<open>datetime.datetime.now()\<close> return and \<open>ticks\<close> counts the calls made;
  \<open>uid_source\<close> and \<open>uid_calls\<close> do the same for \<^verbatim>\<open>pydicom.uid.generate_uid\<close>.
\<close>

record world =
  DicomDictionary :: "(nat, dict_entry) pydict"
  keyword_dict :: "(string, nat) pydict"
  heap :: "elems list"
  clock :: "nat \<Rightarrow> datetime"
  ticks :: nat
  uid_source :: "nat \<Rightarrow> string"
  uid_calls :: nat

text \<open>
  \<^verbatim>\<open>FileDataset(filename, {}, file_meta=..., preamble=...)\<close>. The file-meta header is held
  by reference. pydicom's constructor defaults \<^verbatim>\<open>is_implicit_VR\<close> and
  \<^verbatim>\<open>is_little_endian\<close> to \<^verbatim>\<open>True\<close>.
\<close>

record FileDataset =
  fd_filename :: string
  fd_file_meta :: addr
  preamble :: "8 word list"
  is_implicit_VR :: bool
  is_little_endian :: bool
  elements :: elems

text \<open>The attributes of a \<^verbatim>\<open>Dicom\<close> object.\<close>

record Dicom =
  filename :: string
  file_meta :: addr
  ds :: FileDataset

datatype error = AttributeError string

subsection \<open>Collaborators: allocation, attribute access, clock, UID generator\<close>

definition new_FileDataset :: "string \<Rightarrow> elems \<Rightarrow> addr \<Rightarrow> 8 word list \<Rightarrow> FileDataset" where
  "new_FileDataset fname init fm pre =
     \<lparr>fd_filename = fname, fd_file_meta = fm, preamble = pre,
      is_implicit_VR = True, is_little_endian = True, elements = init\<rparr>"

text \<open>\<^verbatim>\<open>FileMetaDataset()\<close>: a new, empty object on the heap.\<close>

definition new_FileMetaDataset :: "world \<Rightarrow> addr \<times> world" where
  "new_FileMetaDataset w = (length (heap w), w\<lparr>heap := heap w @ [[]]\<rparr>)"

text \<open>
  Assignment to an attribute of the file-meta object at address \<open>a\<close>. An address handed
  out by \<open>new_FileMetaDataset\<close> stays below the heap's length; for any other address the
  heap is left as it is.
\<close>

definition meta_set :: "addr \<Rightarrow> string \<Rightarrow> dval \<Rightarrow> world \<Rightarrow> world" where
  "meta_set a k v w =
     (if a < length (heap w) then w\<lparr>heap := (heap w)[a := dict_set k v (heap w ! a)]\<rparr>
      else w)"

definition meta_get :: "world \<Rightarrow> addr \<Rightarrow> string \<Rightarrow> dval option" where
  "meta_get w a k = (if a < length (heap w) then dict_get (heap w ! a) k else None)"

text \<open>\<^verbatim>\<open>self.ds.K = v\<close> and \<^verbatim>\<open>self.ds.K\<close> for a data-element keyword \<open>K\<close>.\<close>

definition ds_set :: "string \<Rightarrow> dval \<Rightarrow> FileDataset \<Rightarrow> FileDataset" where
  "ds_set k v d = d\<lparr>elements := dict_set k v (elements d)\<rparr>"

definition ds_get :: "FileDataset \<Rightarrow> string \<Rightarrow> dval option" where
  "ds_get d k = dict_get (elements d) k"

text \<open>A run of attribute assignments, in source order.\<close>

definition ds_assign :: "(string \<times> dval) list \<Rightarrow> FileDataset \<Rightarrow> FileDataset" where
  "ds_assign kvs d = d\<lparr>elements := dict_update (elements d) kvs\<rparr>"

definition datetime_now :: "world \<Rightarrow> datetime \<times> world" where
  "datetime_now w = (clock w (ticks w), w\<lparr>ticks := Suc (ticks w)\<rparr>)"

definition generate_uid :: "world \<Rightarrow> string \<times> world" where
  "generate_uid w = (uid_source w (uid_calls w), w\<lparr>uid_calls := Suc (uid_calls w)\<rparr>)"

text \<open>Decimal digits of \<open>n\<close>, zero-padded to width \<open>k\<close> (the low \<open>k\<close> digits).\<close>

fun zpad :: "nat \<Rightarrow> nat \<Rightarrow> string" where
  "zpad 0 n = []"
| "zpad (Suc k) n = zpad k (n div 10) @ [''0123456789'' ! (n mod 10)]"

text \<open>
  \<^verbatim>\<open>dt.strftime('%Y%m%d')\<close> and \<^verbatim>\<open>dt.strftime('%H%M%S.%f')\<close>, for the four-digit
  years that the wall clock returns.
\<close>

definition strftime_Ymd :: "datetime \<Rightarrow> string" where
  "strftime_Ymd dt = zpad 4 (year dt) @ zpad 2 (month dt) @ zpad 2 (day dt)"

definition strftime_HMSf :: "datetime \<Rightarrow> string" where
  "strftime_HMSf dt =
     zpad 2 (hour dt) @ zpad 2 (minute dt) @ zpad 2 (second dt) @ ''.'' @
     zpad 6 (microsecond dt)"

subsection \<open>\<^verbatim>\<open>Dicom.dcm_dictionary_update\<close>\<close>

definition new_dict_items :: "(nat \<times> dict_entry) list" where
  "new_dict_items = [
    (0x20011002, (''IS'', ''1'', ''Chemical Shift Number MR'', '''', ''ChemicalShiftNumberMR'')),
    (0x20011008, (''IS'', ''1'', ''Phase Number'', '''', ''PhaseNumber'')),
    (0x2001100a, (''IS'', ''1'', ''Slice Number MR'', '''', ''SliceNumberMR'')),
    (0x2001100b, (''CS'', ''1'', ''Slice Orientation'', '''', ''SliceOrientation'')),
    (0x20011014, (''SL'', ''1'', ''Number Of Echoes'', '''', ''NumberOfEchoes'')),
    (0x20011015, (''SS'', ''1'', ''Number Of Locations'', '''', ''NumberOfLocations'')),
    (0x20011016, (''SS'', ''1'', ''Number Of PC Directions'', '''', ''NumberOfPCDirections'')),
    (0x20011017, (''SL'', ''1'', ''Number Of Phases MR'', '''', ''NumberOfPhasesMR'')),
    (0x20011018, (''SL'', ''1'', ''Number Of Slices MR'', '''', ''NumberOfSlicesMR'')),
    (0x20011020, (''LO'', ''1'', ''Scanning Technique'', '''', ''ScanningTechnique'')),
    (0x20011025, (''SH'', ''1'', ''Echo Time Display MR'', '''', ''EchoTimeDisplayMR'')),
    (0x20011060, (''SL'', ''1'', ''Number Of Stacks'', '''', ''NumberOfStacks'')),
    (0x20011063, (''CS'', ''1'', ''Examination Source'', '''', ''ExaminationSource'')),
    (0x20011081, (''IS'', ''1'', ''Number Of Dynamic Scans'', '''', ''NumberOfDynamicScans'')),
    (0x2001101a, (''FL'', ''3'', ''PC Velocity'', '''', ''PCVelocity'')),
    (0x2001101d, (''IS'', ''1'', ''Reconstruction Number MR'', '''', ''ReconstructionNumberMR'')),
    (0x20051035, (''CS'', ''1'', '''', '''', ''unknowntag20051035'')),
    (0x20051011, (''CS'', ''1'', ''MR Image Type'', '''', ''MRImageType'')),
    (0x2005106e, (''CS'', ''1'', ''MR Scan Sequence'', '''', ''MRScanSequence'')),
    (0x2001105f, (''SQ'', ''1'', ''Stack'', '''', ''Stack'')),
    (0x20010010, (''LO'', ''1'', ''Private Creator'', '''', ''PrivateCreator20010010'')),
    (0x2001102d, (''SS'', ''1'', ''StackNumberOfSlices'', '''', ''StackNumberOfSlices'')),
    (0x20011032, (''FL'', ''1'', ''StackRadialAngle'', '''', ''StackRadialAngle'')),
    (0x20011033, (''CS'', ''1'', ''StackRadialAxis'', '''', ''StackRadialAxis'')),
    (0x20011035, (''SS'', ''1'', ''MRSeriesDataType'', '''', ''MRSeriesDataType'')),
    (0x20011036, (''CS'', ''1'', ''StackType'', '''', ''StackType'')),
    (0x20050010, (''LO'', ''1'', ''Private Creator'', '''', ''PrivateCreator20050010'')),
    (0x20050011, (''LO'', ''1'', ''Private Creator'', '''', ''PrivateCreator20050011'')),
    (0x20050012, (''LO'', ''1'', ''Private Creator'', '''', ''PrivateCreator20050012'')),
    (0x20050013, (''LO'', ''1'', ''Private Creator'', '''', ''PrivateCreator20050013'')),
    (0x20050014, (''LO'', ''1'', ''Private Creator'', '''', ''PrivateCreator20050014'')),
    (0x20050015, (''LO'', ''1'', ''Private Creator'', '''', ''PrivateCreator20050015'')),
    (0x20051071, (''FL'', ''1'', ''MRStackAngulationAP'', '''', ''MRStackAngulationAP'')),
    (0x20051072, (''FL'', ''1'', ''MRStackAngulationFH'', '''', ''MRStackAngulationFH'')),
    (0x20051073, (''FL'', ''1'', ''MRStackAngulationRL'', '''', ''MRStackAngulationRL'')),
    (0x20051074, (''FL'', ''1'', ''MRStackFovAP'', '''', ''MRStackFovAP'')),
    (0x20051075, (''FL'', ''1'', ''MRStackFovFH'', '''', ''MRStackFovFH'')),
    (0x20051076, (''FL'', ''1'', ''MRStackFovRL'', '''', ''MRStackFovRL'')),
    (0x20051078, (''FL'', ''1'', ''MRStackOffcentreAP'', '''', ''MRStackOffcentreAP'')),
    (0x20051079, (''FL'', ''1'', ''MRStackOffcentreFH'', '''', ''MRStackOffcentreFH'')),
    (0x2005107a, (''FL'', ''1'', ''MRStackOffcentreRL'', '''', ''MRStackOffcentreRL'')),
    (0x2005107b, (''CS'', ''1'', ''MRStackPreparationDirection'', '''', ''MRStackPreparationDirection'')),
    (0x2005107e, (''FL'', ''1'', ''MRStackSliceDistance'', '''', ''MRStackSliceDistance'')),
    (0x20051081, (''CS'', ''1'', ''MRStackViewAxis'', '''', ''MRStackViewAxis'')),
    (0x2005143c, (''FL'', ''1'', ''MRStackTablePosLong'', '''', ''MRStackTablePosLong'')),
    (0x2005143d, (''FL'', ''1'', ''MRStackTablePosLat'', '''', ''MRStackTablePosLat'')),
    (0x2005143e, (''FL'', ''1'', ''MRStackPosteriorCoilPos'', '''', ''MRStackPosteriorCoilPos'')),
    (0x20051567, (''IS'', ''1'', ''MRPhilipsX1'', '''', ''MRPhilipsX1'')),
    (0x00089209, (''CS'', ''1'', ''Acquisition Contrast'', '''', ''AcquisitionContrast'')),
    (0x00189014, (''CS'', ''1'', ''Phase Contrast'', '''', ''PhaseContrast'')),
    (0x00189090, (''FD'', ''3'', ''Velocity Encoding Direction'', '''', ''VelocityEncodingDirection'')),
    (0x00189091, (''FD'', ''1'', ''Velocity Encoding Minimum Value'', '''', ''VelocityEncodingMinimumValue''))
  ]"

text \<open>
  \<^verbatim>\<open>dict([(val[4], tag) for tag, val in new_dict_items.items()])\<close>: the reverse mapping
  from keyword to tag.
\<close>

definition new_names_dict :: "(string, nat) pydict" where
  "new_names_dict = dict_of_pairs (map (\<lambda>item. (entry_keyword (snd item), fst item)) new_dict_items)"

definition dcm_dictionary_update :: "world \<Rightarrow> world" where
  "dcm_dictionary_update w =
     w\<lparr>DicomDictionary := dict_update (DicomDictionary w) new_dict_items,
       keyword_dict := dict_update (keyword_dict w) new_names_dict\<rparr>"

subsection \<open>\<^verbatim>\<open>Dicom.__init__\<close>: the baseline dataset\<close>

definition nii2dcm_temp_filename :: string where
  "nii2dcm_temp_filename = ''nii2dcm_tempfile.dcm''"

text \<open>The assignments from \<^verbatim>\<open>SpecificCharacterSet\<close> down to \<^verbatim>\<open>Modality\<close>.\<close>

definition general_tags :: "(string \<times> dval) list" where
  "general_tags = [
    (''SpecificCharacterSet'', Str ''ISO_IR 100''),
    (''ImageType'', StrList [''DERIVED'', ''SECONDARY'']),
    (''ProtocolName'', Str ''nii2dcm_DICOM''),
    (''PatientName'', Str ''Test^Firstname''),
    (''PatientID'', Str ''12345678''),
    (''AccessionNumber'', Str ''ABCXYZ''),
    (''PatientBirthDate'', Str ''''),
    (''PatientSex'', Str ''''),
    (''PatientAge'', Str ''''),
    (''PatientWeight'', Str ''''),
    (''BodyPartExamined'', Str ''''),
    (''InstitutionName'', Str ''INSTITUTION_NAME_NONE''),
    (''Manufacturer'', Str ''''),
    (''ManufacturerModelName'', Str ''''),
    (''StudyDescription'', Str ''''),
    (''InstanceCreatorUID'', Str ''''),
    (''SoftwareVersions'', Str ''''),
    (''SOPClassUID'', Str ''''),
    (''Modality'', Str '''')
  ]"

text \<open>The assignments of \<open>dateStr\<close> and \<open>timeStr\<close>.\<close>

definition timestamp_tags :: "string \<Rightarrow> string \<Rightarrow> (string \<times> dval) list" where
  "timestamp_tags dateStr timeStr = [
    (''ContentDate'', Str dateStr),
    (''ContentTime'', Str timeStr),
    (''StudyDate'', Str dateStr),
    (''StudyTime'', Str timeStr),
    (''SeriesDate'', Str dateStr),
    (''SeriesTime'', Str timeStr),
    (''AcquisitionDate'', Str dateStr),
    (''AcquisitionTime'', Str timeStr),
    (''InstanceCreationDate'', Str dateStr),
    (''InstanceCreationTime'', Str timeStr)
  ]"

text \<open>The assignments from \<^verbatim>\<open>Rows\<close> down to \<^verbatim>\<open>ImagePositionPatient\<close>.\<close>

definition image_tags :: "(string \<times> dval) list" where
  "image_tags = [
    (''Rows'', Str ''''),
    (''Columns'', Str ''''),
    (''PixelSpacing'', Str ''''),
    (''PixelRepresentation'', Str ''''),
    (''PatientPosition'', Str ''''),
    (''ImageOrientationPatient'', StrList [''1'', ''0'', ''0'', ''0'', ''1'', ''0'']),
    (''LossyImageCompression'', Str ''''),
    (''RescaleIntercept'', Str ''''),
    (''RescaleSlope'', Str ''''),
    (''WindowCenter'', Str ''''),
    (''WindowWidth'', Str ''''),
    (''SOPInstanceUID'', Str ''''),
    (''InstanceNumber'', Str ''''),
    (''SliceThickness'', Str ''''),
    (''SpacingBetweenSlices'', Str ''''),
    (''SliceLocation'', Str ''''),
    (''ImagePositionPatient'', StrList [''0'', ''0'', ''0''])
  ]"

definition init_study_tags :: "Dicom \<Rightarrow> world \<Rightarrow> Dicom \<times> world" where
  "init_study_tags self w =
     (let (uid, w1) = generate_uid w
      in (self\<lparr>ds := ds_set ''StudyInstanceUID'' (Str uid) (ds self)\<rparr>, w1))"

definition init_series_tags :: "Dicom \<Rightarrow> world \<Rightarrow> Dicom \<times> world" where
  "init_series_tags self w =
     (let (uid1, w1) = generate_uid w;
          d1 = ds_set ''SeriesInstanceUID'' (Str uid1) (ds self);
          (uid2, w2) = generate_uid w1;
          d2 = ds_set ''FrameOfReferenceUID'' (Str uid2) d1;
          d3 = ds_set ''SeriesNumber'' (Str '''') d2;
          d4 = ds_set ''AcquisitionNumber'' (Str '''') d3
      in (self\<lparr>ds := d4\<rparr>, w2))"

definition Dicom_init :: "string \<Rightarrow> world \<Rightarrow> Dicom \<times> world" where
  "Dicom_init fname w =
     (let w1 = dcm_dictionary_update w;
          (fm, w2) = new_FileMetaDataset w1;
          w3 = meta_set fm ''TransferSyntaxUID'' (Str ''1.2.840.10008.1.2.1'') w2;
          w4 = meta_set fm ''ImplementationVersionName'' (Str ''nii2dcm_DICOM'') w3;
          d0 = new_FileDataset fname [] fm (replicate 128 0);
          d1 = d0\<lparr>is_implicit_VR := False\<rparr>;
          d2 = d1\<lparr>is_little_endian := True\<rparr>;
          d3 = ds_assign general_tags d2;
          (dt, w5) = datetime_now w4;
          dateStr = strftime_Ymd dt;
          timeStr = strftime_HMSf dt;
          d4 = ds_assign (timestamp_tags dateStr timeStr) d3;
          d5 = ds_assign image_tags d4;
          self = \<lparr>filename = fname, file_meta = fm, ds = d5\<rparr>;
          (self1, w6) = init_study_tags self w5
      in init_series_tags self1 w6)"

definition get_file_meta :: "Dicom \<Rightarrow> addr" where
  "get_file_meta self = file_meta self"

definition get_dataset :: "Dicom \<Rightarrow> FileDataset" where
  "get_dataset self = ds self"

text \<open>\<^verbatim>\<open>os.path.join(a, b)\<close> on a POSIX system, for two components.\<close>

definition path_join :: "string \<Rightarrow> string \<Rightarrow> string" where
  "path_join a b =
     (if b \<noteq> [] \<and> hd b = CHR ''/'' then b
      else if a = [] \<or> last a = CHR ''/'' then a @ b
      else a @ ''/'' @ b)"

text \<open>
  \<^verbatim>\<open>save_as\<close> prints one line and hands the dataset, as it stands, to pydicom's writer
  together with the file name. The result is the printed line and that write request;
  \<open>cwd\<close> is what \<^verbatim>\<open>os.getcwd()\<close> returns.
\<close>

definition save_as :: "Dicom \<Rightarrow> string \<Rightarrow> string \<times> (string \<times> FileDataset)" where
  "save_as self cwd =
     (''Writing DICOM to '' @ path_join cwd (filename self), (filename self, ds self))"

subsection \<open>\<^verbatim>\<open>DicomMRI.__init__\<close>: the MR Image Module\<close>

text \<open>
  The branch on \<^verbatim>\<open>PhotometricInterpretation\<close>. Reading a data element that the
  dataset does not hold raises \<^verbatim>\<open>AttributeError\<close>.
\<close>

definition PresentationLUTShape_branch :: "FileDataset \<Rightarrow> error + FileDataset" where
  "PresentationLUTShape_branch d =
     (case ds_get d ''PhotometricInterpretation'' of
        None \<Rightarrow> Inl (AttributeError ''PhotometricInterpretation'')
      | Some p \<Rightarrow>
          if p = Str ''MONOCHROME2''
          then Inr (ds_set ''PresentationLUTShape'' (Str ''IDENTITY'') d)
          else if p = Str ''MONOCHROME1''
          then Inr (ds_set ''PresentationLUTShape'' (Str ''INVERSE'') d)
          else Inr d)"

text \<open>\<^verbatim>\<open>BitsAllocated\<close>, \<^verbatim>\<open>BitsStored\<close> and \<^verbatim>\<open>HighBit\<close>.\<close>

definition bits_tags :: "(string \<times> dval) list" where
  "bits_tags = [
    (''BitsAllocated'', IntV 16),
    (''BitsStored'', Str ''''),
    (''HighBit'', Str '''')
  ]"

text \<open>The assignments from \<^verbatim>\<open>ScanningSequence\<close> down to \<^verbatim>\<open>B1rms\<close>.\<close>

definition mr_acquisition_tags :: "(string \<times> dval) list" where
  "mr_acquisition_tags = [
    (''ScanningSequence'', Str ''RM''),
    (''SequenceVariant'', Str ''''),
    (''ScanOptions'', Str ''''),
    (''MRAcquisitionType'', Str ''''),
    (''RepetitionTime'', Str ''''),
    (''EchoTime'', Str ''''),
    (''EchoTrainLength'', Str ''''),
    (''InversionTime'', Str ''''),
    (''TriggerTime'', Str ''''),
    (''SequenceName'', Str ''''),
    (''AngioFlag'', Str ''''),
    (''NumberOfAverages'', Str ''''),
    (''ImagingFrequency'', Str ''''),
    (''ImagedNucleus'', Str ''''),
    (''EchoNumbers'', Str ''''),
    (''MagneticFieldStrength'', Str ''''),
    (''NumberOfPhaseEncodingSteps'', Str ''''),
    (''PercentSampling'', Str ''''),
    (''PercentPhaseFieldOfView'', Str ''''),
    (''PixelBandwidth'', Str ''''),
    (''NominalInterval'', Str ''''),
    (''BeatRejectionFlag'', Str ''''),
    (''LowRRValue'', Str ''''),
    (''HighRRValue'', Str ''''),
    (''IntervalsAcquired'', Str ''''),
    (''IntervalsRejected'', Str ''''),
    (''PVCRejection'', Str ''''),
    (''SkipBeats'', Str ''''),
    (''HeartRate'', Str ''''),
    (''CardiacNumberOfImages'', Str ''''),
    (''TriggerWindow'', Str ''''),
    (''ReconstructionDiameter'', Str ''''),
    (''ReceiveCoilName'', Str ''''),
    (''TransmitCoilName'', Str ''''),
    (''AcquisitionMatrix'', Str ''''),
    (''InPlanePhaseEncodingDirection'', Str ''''),
    (''FlipAngle'', Str ''''),
    (''SAR'', Str ''''),
    (''VariableFlipAngleFlag'', Str ''''),
    (''dBdt'', Str ''''),
    (''TemporalPositionIdentifier'', Str ''''),
    (''NumberOfTemporalPositions'', Str ''''),
    (''TemporalResolution'', Str ''''),
    (''IsocenterPosition'', Str ''''),
    (''B1rms'', Str '''')
  ]"

definition DicomMRI_init :: "string \<Rightarrow> world \<Rightarrow> error + (Dicom \<times> world)" where
  "DicomMRI_init fname w =
     (let (self, w1) = Dicom_init fname w;
          d1 = ds_set ''Modality'' (Str ''MR'') (ds self);
          w2 = meta_set (file_meta self) ''MediaStorageSOPClassUID''
                 (Str ''1.2.840.10008.5.1.4.1.1.4'') w1;
          d2 = ds_set ''SOPClassUID'' (Str ''1.2.840.10008.5.1.4.1.1.4'') d1
      in case ds_get d2 ''ImageType'' of
           None \<Rightarrow> Inl (AttributeError ''ImageType'')
         | Some image_type \<Rightarrow>
             (let d3 = ds_set ''ImageType'' image_type d2;
                  d4 = ds_set ''SamplesPerPixel'' (Str '''') d3;
                  d5 = ds_set ''PhotometricInterpretation'' (Str ''MONOCHROME2'') d4
              in case PresentationLUTShape_branch d5 of
                   Inl e \<Rightarrow> Inl e
                 | Inr d6 \<Rightarrow>
                     (let d7 = ds_assign bits_tags d6;
                          d8 = ds_assign mr_acquisition_tags d7
                      in Inr (self\<lparr>ds := d8\<rparr>, w2))))"

subsection \<open>Observations used in the statements\<close>

text \<open>The three identifiers that construction draws from the UID generator.\<close>

definition generated_uids :: "Dicom \<Rightarrow> dval option list" where
  "generated_uids self =
     map (ds_get (ds self)) [''StudyInstanceUID'', ''SeriesInstanceUID'', ''FrameOfReferenceUID'']"

text \<open>The keywords of a dataset whose value is \<open>v\<close>, in dataset order.\<close>

definition keywords_holding :: "dval \<Rightarrow> FileDataset \<Rightarrow> string list" where
  "keywords_holding v d = map fst (filter (\<lambda>item. snd item = v) (elements d))"

text \<open>The keywords that only the MR constructor assigns.\<close>

definition mr_added_keywords :: "string list" where
  "mr_added_keywords =
     [''SamplesPerPixel'', ''PhotometricInterpretation'', ''PresentationLUTShape''] @
     map fst bits_tags @ map fst mr_acquisition_tags"

text \<open>\<^verbatim>\<open>DicomMRI(fname).ds\<close> read at keyword \<open>k\<close>, or the error that construction raised.\<close>

definition mr_attr :: "string \<Rightarrow> world \<Rightarrow> string \<Rightarrow> error + dval option" where
  "mr_attr fname w k =
     (case DicomMRI_init fname w of
        Inl e \<Rightarrow> Inl e
      | Inr r \<Rightarrow> Inr (ds_get (ds (fst r)) k))"

text \<open>
  A sample world: empty dictionaries and heap, a clock that starts on 4 November 2026
  at 09:30:00 and advances by a second per reading, and a UID generator whose
  \<open>n\<close>-th value is \<^verbatim>\<open>2.25.1\<close> followed by \<open>n\<close> zeros.
\<close>

definition sample_clock :: "nat \<Rightarrow> datetime" where
  "sample_clock n =
     \<lparr>year = 2026, month = 11, day = 4, hour = 9, minute = 30, second = n mod 60,
      microsecond = 0\<rparr>"

definition sample_uids :: "nat \<Rightarrow> string" where
  "sample_uids n = ''2.25.1'' @ replicate n CHR ''0''"

definition world0 :: world where
  "world0 = \<lparr>DicomDictionary = [], keyword_dict = [], heap = [], clock = sample_clock,
     ticks = 0, uid_source = sample_uids, uid_calls = 0\<rparr>"

text \<open>
  A dataset fresh from pydicom's constructor in which only
  \<^verbatim>\<open>PhotometricInterpretation\<close> has been assigned.
\<close>

definition sample_dataset :: "string \<Rightarrow> FileDataset" where
  "sample_dataset p =
     ds_set ''PhotometricInterpretation'' (Str p)
       (new_FileDataset nii2dcm_temp_filename [] 0 (replicate 128 0))"

subsection \<open>The assignments of a constructor run, collected\<close>

text \<open>
  All data elements that \<open>Dicom_init\<close> assigns, in source order, with the two formatted
  strings and the three generated identifiers as parameters; the same list for the
  values that a given world supplies; the file-meta elements that \<open>Dicom_init\<close> assigns;
  and the data elements that \<open>DicomMRI_init\<close> assigns after the baseline build.
\<close>

definition baseline_elements :: "string \<Rightarrow> string \<Rightarrow> string \<Rightarrow> string \<Rightarrow> string \<Rightarrow> (string \<times> dval) list" where
  "baseline_elements dateStr timeStr uid1 uid2 uid3 =
     general_tags @ timestamp_tags dateStr timeStr @ image_tags @
     [(''StudyInstanceUID'', Str uid1), (''SeriesInstanceUID'', Str uid2),
      (''FrameOfReferenceUID'', Str uid3), (''SeriesNumber'', Str ''''),
      (''AcquisitionNumber'', Str '''')]"

definition mr_assignments :: "(string \<times> dval) list" where
  "mr_assignments =
     [(''Modality'', Str ''MR''),
      (''SOPClassUID'', Str ''1.2.840.10008.5.1.4.1.1.4''),
      (''ImageType'', StrList [''DERIVED'', ''SECONDARY'']),
      (''SamplesPerPixel'', Str ''''),
      (''PhotometricInterpretation'', Str ''MONOCHROME2''),
      (''PresentationLUTShape'', Str ''IDENTITY'')] @ bits_tags @ mr_acquisition_tags"

definition world_elements :: "world \<Rightarrow> (string \<times> dval) list" where
  "world_elements w =
     baseline_elements (strftime_Ymd (clock w (ticks w))) (strftime_HMSf (clock w (ticks w)))
       (uid_source w (uid_calls w)) (uid_source w (Suc (uid_calls w)))
       (uid_source w (Suc (Suc (uid_calls w))))"

definition baseline_meta :: "(string \<times> dval) list" where
  "baseline_meta = [(''TransferSyntaxUID'', Str ''1.2.840.10008.1.2.1''),
                   (''ImplementationVersionName'', Str ''nii2dcm_DICOM'')]"

section \<open>Properties\<close>

subsection \<open>Dictionary stores\<close>

lemma dict_set_same:
  "map_of d k = Some v \<Longrightarrow> dict_set k v d = d"
  by (induction d) (auto split: if_splits)

lemma map_of_dict_set:
  "map_of (dict_set k v d) k' = (if k' = k then Some v else map_of d k')"
  by (induction d) auto

lemma map_of_dict_update:
  "map_of (dict_update d ps) k =
     (case map_of (rev ps) k of Some v \<Rightarrow> Some v | None \<Rightarrow> map_of d k)"
proof (induction ps arbitrary: d)
  case Nil
  show ?case by simp
next
  case (Cons p ps)
  show ?case
    by (cases p) (simp add: Cons.IH map_of_dict_set map_add_def split: option.split)
qed

lemma distinct_dict_set:
  "distinct (map fst d) \<Longrightarrow> distinct (map fst (dict_set k v d))"
proof (induction d)
  case Nil
  show ?case by simp
next
  case (Cons p d)
  have keys: "fst ` set (dict_set k v d) = insert k (fst ` set d)"
    by (induction d) auto
  from Cons show ?case by (auto simp: keys)
qed

lemma distinct_dict_update:
  "distinct (map fst d) \<Longrightarrow> distinct (map fst (dict_update d ps))"
  by (induction ps arbitrary: d) (simp_all add: distinct_dict_set)

lemma distinct_dict_of_pairs: "distinct (map fst (dict_of_pairs ps))"
  by (simp add: dict_of_pairs_def distinct_dict_update)

text \<open>A pass over items that are all in place already changes nothing, order included.\<close>

lemma dict_update_in_place:
  "(\<And>p. p \<in> set ps \<Longrightarrow> map_of d (fst p) = Some (snd p)) \<Longrightarrow> dict_update d ps = d"
proof (induction ps arbitrary: d)
  case Nil
  show ?case by simp
next
  case (Cons p ps)
  have "dict_set (fst p) (snd p) d = d"
    by (rule dict_set_same) (simp add: Cons.prems)
  with Cons show ?case by simp
qed

lemma dict_update_stores:
  assumes "distinct (map fst ps)" and "p \<in> set ps"
  shows "map_of (dict_update d ps) (fst p) = Some (snd p)"
proof -
  have "distinct (map fst (rev ps))"
    using assms(1) by (simp add: rev_map [symmetric])
  moreover have "(fst p, snd p) \<in> set (rev ps)"
    using assms(2) by simp
  ultimately have "map_of (rev ps) (fst p) = Some (snd p)"
    by (rule map_of_is_SomeI)
  then show ?thesis by (simp add: map_of_dict_update)
qed

lemma dict_update_twice:
  "distinct (map fst ps) \<Longrightarrow> dict_update (dict_update d ps) ps = dict_update d ps"
  by (rule dict_update_in_place) (rule dict_update_stores)

lemma distinct_new_dict_items: "distinct (map fst new_dict_items)"
  unfolding new_dict_items_def by simp

subsection \<open>Closed forms of the two constructors\<close>

lemma dict_update_append:
  "dict_update (dict_update d xs) ys = dict_update d (xs @ ys)"
  by (induction xs arbitrary: d) simp_all

lemma dict_set_as_update: "dict_set k v d = dict_update d [(k, v)]"
  by simp

lemma dict_set_new: "k \<notin> fst ` set d \<Longrightarrow> dict_set k v d = d @ [(k, v)]"
  by (induction d) auto

lemma dict_update_new:
  "distinct (map fst (d @ ps)) \<Longrightarrow> dict_update d ps = d @ ps"
proof (induction ps arbitrary: d)
  case Nil
  show ?case by simp
next
  case (Cons p ps)
  from Cons.prems have new: "fst p \<notin> fst ` set d" by auto
  from Cons.prems have "distinct (map fst ((d @ [p]) @ ps))" by simp
  then have "dict_update (d @ [p]) ps = (d @ [p]) @ ps" by (rule Cons.IH)
  with new show ?case by (simp add: dict_set_new)
qed

lemma distinct_baseline_elements:
  "distinct (map fst (baseline_elements d t u1 u2 u3))"
  by (simp add: baseline_elements_def general_tags_def timestamp_tags_def image_tags_def)

lemma distinct_mr_assignments: "distinct (map fst mr_assignments)"
  by (simp add: mr_assignments_def bits_tags_def mr_acquisition_tags_def)

lemma Dicom_init_result:
  "Dicom_init fname w =
     (\<lparr>filename = fname, file_meta = length (heap w),
       ds = \<lparr>fd_filename = fname, fd_file_meta = length (heap w),
              preamble = replicate 128 0, is_implicit_VR = False, is_little_endian = True,
              elements = world_elements w\<rparr>\<rparr>,
      (dcm_dictionary_update w)
        \<lparr>heap := heap w @ [baseline_meta],
         ticks := Suc (ticks w), uid_calls := Suc (Suc (Suc (uid_calls w)))\<rparr>)"
proof -
  have elems: "dict_update [] (baseline_elements d t u1 u2 u3) = baseline_elements d t u1 u2 u3"
    for d t u1 u2 u3
    by (rule dict_update_new [where d = "[]", simplified]) (rule distinct_baseline_elements)
  have meta: "dict_update [] baseline_meta = baseline_meta"
    by (simp add: baseline_meta_def)
  have "Dicom_init fname w =
     (\<lparr>filename = fname, file_meta = length (heap w),
       ds = \<lparr>fd_filename = fname, fd_file_meta = length (heap w),
              preamble = replicate 128 0, is_implicit_VR = False, is_little_endian = True,
              elements = dict_update [] (world_elements w)\<rparr>\<rparr>,
      (dcm_dictionary_update w)
        \<lparr>heap := heap w @ [dict_update [] baseline_meta],
         ticks := Suc (ticks w), uid_calls := Suc (Suc (Suc (uid_calls w)))\<rparr>)"
    unfolding Dicom_init_def init_series_tags_def init_study_tags_def baseline_elements_def
      world_elements_def baseline_meta_def
    by (simp add: Let_def split_def new_FileMetaDataset_def meta_set_def new_FileDataset_def
        ds_assign_def ds_set_def datetime_now_def generate_uid_def dcm_dictionary_update_def
        dict_update_append dict_set_as_update del: dict_update.simps dict_set.simps)
  then show ?thesis by (simp only: elems meta world_elements_def)
qed

lemma Dicom_init_get:
  "ds_get (ds (fst (Dicom_init fname w))) k = map_of (world_elements w) k"
  by (simp add: Dicom_init_result ds_get_def dict_get_def)

lemma baseline_ImageType:
  "map_of (baseline_elements d t u1 u2 u3) ''ImageType'' = Some (StrList [''DERIVED'', ''SECONDARY''])"
  by (simp add: baseline_elements_def general_tags_def)

lemma ds_set_as_assign: "ds_set k v d = ds_assign [(k, v)] d"
  by (simp add: ds_set_def ds_assign_def)

lemma ds_assign_assign: "ds_assign ys (ds_assign xs d) = ds_assign (xs @ ys) d"
  by (simp add: ds_assign_def dict_update_append)

lemma ds_get_assign:
  "ds_get (ds_assign xs d) k =
     (case map_of (rev xs) k of Some v \<Rightarrow> Some v | None \<Rightarrow> ds_get d k)"
  by (simp add: ds_get_def ds_assign_def dict_get_def map_of_dict_update split: option.split)

lemma map_of_rev_distinct:
  "distinct (map fst xs) \<Longrightarrow> map_of (rev xs) = map_of xs"
  by (subst map_of_inject_set) (simp_all add: rev_map [symmetric])


lemma branch_MONOCHROME2:
  "ds_get d ''PhotometricInterpretation'' = Some (Str ''MONOCHROME2'') \<Longrightarrow>
   PresentationLUTShape_branch d = Inr (ds_assign [(''PresentationLUTShape'', Str ''IDENTITY'')] d)"
  by (simp add: PresentationLUTShape_branch_def ds_set_as_assign)

lemma DicomMRI_init_result:
  "DicomMRI_init fname w =
     Inr ((fst (Dicom_init fname w))
            \<lparr>ds := ds_assign mr_assignments (ds (fst (Dicom_init fname w)))\<rparr>,
          meta_set (file_meta (fst (Dicom_init fname w))) ''MediaStorageSOPClassUID''
            (Str ''1.2.840.10008.5.1.4.1.1.4'') (snd (Dicom_init fname w)))"
proof -
  define b where "b = ds (fst (Dicom_init fname w))"
  have it: "ds_get (ds_assign [(''Modality'', Str ''MR''),
              (''SOPClassUID'', Str ''1.2.840.10008.5.1.4.1.1.4'')] b) ''ImageType'' =
            Some (StrList [''DERIVED'', ''SECONDARY''])"
    by (simp add: ds_get_assign b_def Dicom_init_get world_elements_def baseline_ImageType)
  have br: "PresentationLUTShape_branch (ds_assign [(''Modality'', Str ''MR''),
              (''SOPClassUID'', Str ''1.2.840.10008.5.1.4.1.1.4''),
              (''ImageType'', StrList [''DERIVED'', ''SECONDARY'']),
              (''SamplesPerPixel'', Str ''''),
              (''PhotometricInterpretation'', Str ''MONOCHROME2'')] b) =
            Inr (ds_assign [(''Modality'', Str ''MR''),
              (''SOPClassUID'', Str ''1.2.840.10008.5.1.4.1.1.4''),
              (''ImageType'', StrList [''DERIVED'', ''SECONDARY'']),
              (''SamplesPerPixel'', Str ''''),
              (''PhotometricInterpretation'', Str ''MONOCHROME2''),
              (''PresentationLUTShape'', Str ''IDENTITY'')] b)"
    by (simp add: branch_MONOCHROME2 ds_get_assign ds_assign_assign)
  show ?thesis
    unfolding DicomMRI_init_def mr_assignments_def
    by (simp add: Let_def split_def ds_set_as_assign ds_assign_assign b_def [symmetric] it br)
qed

lemma DicomMRI_init_get:
  "DicomMRI_init fname w = Inr (self, w') \<Longrightarrow>
   ds_get (ds self) k =
     (case map_of mr_assignments k of Some v \<Rightarrow> Some v | None \<Rightarrow> map_of (world_elements w) k)"
  by (auto simp: DicomMRI_init_result ds_get_assign Dicom_init_get
      map_of_rev_distinct distinct_mr_assignments split: option.split)

lemma world_get_simps:
  "map_of (world_elements w) k =
     map_of (baseline_elements (strftime_Ymd (clock w (ticks w))) (strftime_HMSf (clock w (ticks w)))
       (uid_source w (uid_calls w)) (uid_source w (Suc (uid_calls w)))
       (uid_source w (Suc (Suc (uid_calls w))))) k"
  by (simp add: world_elements_def)

lemma sample_date: "strftime_Ymd (sample_clock 0) = ''20261104''"
  by code_simp

lemma sample_time: "strftime_HMSf (sample_clock 0) = ''093000.000000''"
  by code_simp

subsection \<open>Lookups in the collected assignments\<close>

lemma mr_assignments_lookup:
  "p \<in> set mr_assignments \<Longrightarrow> map_of mr_assignments (fst p) = Some (snd p)"
  by (cases p) (simp add: map_of_is_SomeI [OF distinct_mr_assignments])

lemma acquisition_tags_assigned: "set mr_acquisition_tags \<subseteq> set mr_assignments"
  by (auto simp: mr_assignments_def)

lemma acquisition_tag_values:
  "\<forall>p \<in> set mr_acquisition_tags. snd p = Str (if fst p = ''ScanningSequence'' then ''RM'' else '''')"
  by (simp add: mr_acquisition_tags_def)

lemma baseline_uids:
  "map (map_of (baseline_elements d t u1 u2 u3))
     [''StudyInstanceUID'', ''SeriesInstanceUID'', ''FrameOfReferenceUID''] =
   [Some (Str u1), Some (Str u2), Some (Str u3)]"
  by (simp add: baseline_elements_def general_tags_def timestamp_tags_def image_tags_def)

lemma generated_uids_Dicom_init:
  "generated_uids (fst (Dicom_init fname w)) =
     map (\<lambda>u. Some (Str u))
       [uid_source w (uid_calls w), uid_source w (Suc (uid_calls w)),
        uid_source w (Suc (Suc (uid_calls w)))]"
  using baseline_uids
  by (simp add: generated_uids_def Dicom_init_get [abs_def] world_elements_def)

lemma Dicom_init_uid_state:
  "uid_source (snd (Dicom_init fname w)) = uid_source w \<and>
   uid_calls (snd (Dicom_init fname w)) = Suc (Suc (Suc (uid_calls w)))"
  by (simp add: Dicom_init_result dcm_dictionary_update_def)

lemma sample_uids_inj: "inj sample_uids"
  by (rule injI) (simp add: sample_uids_def)

lemma sample_dataset_get:
  "ds_get (sample_dataset p) k =
     (if k = ''PhotometricInterpretation'' then Some (Str p) else None)"
  by (simp add: sample_dataset_def ds_set_as_assign ds_get_assign)
     (simp add: ds_get_def dict_get_def new_FileDataset_def)

lemma mr_assignments_keys:
  "fst ` set mr_assignments =
     {''Modality'', ''SOPClassUID'', ''ImageType''} \<union> set mr_added_keywords"
  by (auto simp: mr_assignments_def mr_added_keywords_def image_Un)

lemma mr_added_not_baseline:
  "distinct (map fst (baseline_elements d t u1 u2 u3) @ mr_added_keywords)"
  by (simp add: baseline_elements_def general_tags_def timestamp_tags_def image_tags_def
      mr_added_keywords_def bits_tags_def mr_acquisition_tags_def)

lemma mr_added_unset_in_baseline:
  "k \<in> set mr_added_keywords \<Longrightarrow> map_of (baseline_elements d t u1 u2 u3) k = None"
  using mr_added_not_baseline [of d t u1 u2 u3]
  by (auto simp: map_of_eq_None_iff)

lemma baseline_overridden_present:
  "map_of (baseline_elements d t u1 u2 u3) ''Modality'' = Some (Str '''') \<and>
   map_of (baseline_elements d t u1 u2 u3) ''SOPClassUID'' = Some (Str '''')"
  by (simp add: baseline_elements_def general_tags_def)

lemma mr_ImageType:
  "map_of mr_assignments ''ImageType'' = Some (StrList [''DERIVED'', ''SECONDARY''])"
  by (simp add: mr_assignments_def)

lemma meta_get_meta_set:
  "meta_get (meta_set a k' v w) a k =
     (if k = k' \<and> a < length (heap w) then Some v else meta_get w a k)"
  by (simp add: meta_get_def meta_set_def dict_get_def map_of_dict_set)

lemma meta_set_heap_only: "(meta_set a k v w)\<lparr>heap := heap w\<rparr> = w"
  by (simp add: meta_set_def)

subsection \<open>The claims\<close>

text \<open>
  C1. Whatever the file name and the world, \<open>DicomMRI_init\<close> returns an object whose
  dataset holds \<^verbatim>\<open>BitsAllocated\<close> = 16, \<^verbatim>\<open>Modality\<close> = \<^verbatim>\<open>MR\<close> and
  \<^verbatim>\<open>SOPClassUID\<close> = \<^verbatim>\<open>1.2.840.10008.5.1.4.1.1.4\<close>, and whose file-meta header, reached
  through the object or through its dataset, holds the same identifier as
  \<^verbatim>\<open>MediaStorageSOPClassUID\<close>.
\<close>

theorem mr_fixed_fields:
  "\<exists>self w'. DicomMRI_init fname w = Inr (self, w') \<and>
     ds_get (ds self) ''BitsAllocated'' = Some (IntV 16) \<and>
     ds_get (ds self) ''Modality'' = Some (Str ''MR'') \<and>
     ds_get (ds self) ''SOPClassUID'' = Some (Str ''1.2.840.10008.5.1.4.1.1.4'') \<and>
     meta_get w' (get_file_meta self) ''MediaStorageSOPClassUID'' =
       Some (Str ''1.2.840.10008.5.1.4.1.1.4'') \<and>
     meta_get w' (fd_file_meta (ds self)) ''MediaStorageSOPClassUID'' =
       Some (Str ''1.2.840.10008.5.1.4.1.1.4'')"
proof -
  obtain self w' where r: "DicomMRI_init fname w = Inr (self, w')"
    by (simp add: DicomMRI_init_result)
  have "ds_get (ds self) ''BitsAllocated'' = Some (IntV 16)"
    by (simp add: DicomMRI_init_get [OF r] mr_assignments_def bits_tags_def)
  moreover have "ds_get (ds self) ''Modality'' = Some (Str ''MR'')"
    by (simp add: DicomMRI_init_get [OF r] mr_assignments_def)
  moreover have "ds_get (ds self) ''SOPClassUID'' = Some (Str ''1.2.840.10008.5.1.4.1.1.4'')"
    by (simp add: DicomMRI_init_get [OF r] mr_assignments_def)
  moreover have "meta_get w' (get_file_meta self) ''MediaStorageSOPClassUID'' =
       Some (Str ''1.2.840.10008.5.1.4.1.1.4'')"
    using r by (auto simp: DicomMRI_init_result Dicom_init_result meta_get_def meta_set_def
        get_file_meta_def dict_get_def baseline_meta_def)
  moreover have "fd_file_meta (ds self) = get_file_meta self"
    using r by (auto simp: DicomMRI_init_result Dicom_init_result get_file_meta_def ds_assign_def)
  ultimately show ?thesis using r by simp
qed

text \<open>
  C2 (amended). The baseline constructor reads the clock once. The five date fields
  \<^verbatim>\<open>ContentDate\<close>, \<^verbatim>\<open>StudyDate\<close>, \<^verbatim>\<open>SeriesDate\<close>, \<^verbatim>\<open>AcquisitionDate\<close> and
  \<^verbatim>\<open>InstanceCreationDate\<close> all hold the date string of that one reading, and the five
  matching time fields all hold its time string.
\<close>

theorem timestamp_captured_once:
  "\<exists>self w'. Dicom_init fname w = (self, w') \<and>
     map (ds_get (ds self))
       [''ContentDate'', ''StudyDate'', ''SeriesDate'', ''AcquisitionDate'',
        ''InstanceCreationDate''] =
       replicate 5 (Some (Str (strftime_Ymd (clock w (ticks w))))) \<and>
     map (ds_get (ds self))
       [''ContentTime'', ''StudyTime'', ''SeriesTime'', ''AcquisitionTime'',
        ''InstanceCreationTime''] =
       replicate 5 (Some (Str (strftime_HMSf (clock w (ticks w))))) \<and>
     ticks w' = Suc (ticks w)"
proof -
  obtain self w' where r: "Dicom_init fname w = (self, w')"
    by (cases "Dicom_init fname w")
  then have self: "self = fst (Dicom_init fname w)" by simp
  have stamp: "map_of (baseline_elements d t u1 u2 u3) k =
      Some (Str (if k \<in> {''ContentDate'', ''StudyDate'', ''SeriesDate'', ''AcquisitionDate'',
        ''InstanceCreationDate''} then d else t))"
    if "k \<in> {''ContentDate'', ''StudyDate'', ''SeriesDate'', ''AcquisitionDate'',
        ''InstanceCreationDate'', ''ContentTime'', ''StudyTime'', ''SeriesTime'',
        ''AcquisitionTime'', ''InstanceCreationTime''}" for d t u1 u2 u3 k
    using that
    by (auto simp: baseline_elements_def general_tags_def timestamp_tags_def)
  have "map (ds_get (ds self))
       [''ContentDate'', ''StudyDate'', ''SeriesDate'', ''AcquisitionDate'',
        ''InstanceCreationDate''] =
       replicate 5 (Some (Str (strftime_Ymd (clock w (ticks w)))))"
    unfolding self Dicom_init_get world_get_simps
    by (simp add: stamp numeral_eq_Suc)
  moreover have "map (ds_get (ds self))
       [''ContentTime'', ''StudyTime'', ''SeriesTime'', ''AcquisitionTime'',
        ''InstanceCreationTime''] =
       replicate 5 (Some (Str (strftime_HMSf (clock w (ticks w)))))"
    unfolding self Dicom_init_get world_get_simps
    by (simp add: stamp numeral_eq_Suc)
  moreover have "ticks w' = Suc (ticks w)"
    using r by (auto simp: Dicom_init_result dcm_dictionary_update_def)
  ultimately show ?thesis using r by simp
qed

text \<open>
  C2 as stated speaks of six date/time pairs. In the sample world the keywords that hold
  the captured date are exactly five, and so are those that hold the captured time; the
  one other date attribute of the dataset, \<^verbatim>\<open>PatientBirthDate\<close>, holds the empty string.
\<close>

theorem six_timestamp_pairs_counterexample:
  "keywords_holding (Str (strftime_Ymd (sample_clock 0)))
     (ds (fst (Dicom_init nii2dcm_temp_filename world0))) =
     [''ContentDate'', ''StudyDate'', ''SeriesDate'', ''AcquisitionDate'',
      ''InstanceCreationDate''] \<and>
   keywords_holding (Str (strftime_HMSf (sample_clock 0)))
     (ds (fst (Dicom_init nii2dcm_temp_filename world0))) =
     [''ContentTime'', ''StudyTime'', ''SeriesTime'', ''AcquisitionTime'',
      ''InstanceCreationTime''] \<and>
   length (keywords_holding (Str (strftime_Ymd (sample_clock 0)))
     (ds (fst (Dicom_init nii2dcm_temp_filename world0)))) \<noteq> 6 \<and>
   ds_get (ds (fst (Dicom_init nii2dcm_temp_filename world0))) ''PatientBirthDate'' =
     Some (Str '''')"
proof -
  have el: "elements (ds (fst (Dicom_init nii2dcm_temp_filename world0))) =
      baseline_elements ''20261104'' ''093000.000000'' (sample_uids 0) (sample_uids (Suc 0))
        (sample_uids (Suc (Suc 0)))"
    by (simp add: Dicom_init_result world_elements_def world0_def sample_date sample_time)
  show ?thesis
    unfolding keywords_holding_def ds_get_def dict_get_def el sample_date sample_time
    by (simp add: baseline_elements_def general_tags_def timestamp_tags_def image_tags_def
        sample_uids_def)
qed

text \<open>
  C3 (amended). Of the 45 attributes from \<^verbatim>\<open>ScanningSequence\<close> down to \<^verbatim>\<open>B1rms\<close> that
  the MR constructor assigns, \<^verbatim>\<open>ScanningSequence\<close> holds \<^verbatim>\<open>RM\<close> (research mode) and
  each of the other 44 holds the empty string.
\<close>

theorem mr_acquisition_placeholders:
  "\<exists>self w'. DicomMRI_init fname w = Inr (self, w') \<and>
     length mr_acquisition_tags = 45 \<and>
     ds_get (ds self) ''ScanningSequence'' = Some (Str ''RM'') \<and>
     (\<forall>k \<in> set (map fst mr_acquisition_tags).
        k \<noteq> ''ScanningSequence'' \<longrightarrow> ds_get (ds self) k = Some (Str ''''))"
proof -
  obtain self w' where r: "DicomMRI_init fname w = Inr (self, w')"
    by (simp add: DicomMRI_init_result)
  have n: "length mr_acquisition_tags = 45"
    by (simp add: mr_acquisition_tags_def)
  have get: "ds_get (ds self) (fst p) =
      Some (Str (if fst p = ''ScanningSequence'' then ''RM'' else ''''))"
    if "p \<in> set mr_acquisition_tags" for p
  proof -
    from that have "map_of mr_assignments (fst p) = Some (snd p)"
      using acquisition_tags_assigned by (blast intro: mr_assignments_lookup)
    with that acquisition_tag_values show ?thesis
      by (simp add: DicomMRI_init_get [OF r])
  qed
  have "(''ScanningSequence'', Str ''RM'') \<in> set mr_acquisition_tags"
    by (simp add: mr_acquisition_tags_def)
  from get [OF this] have rm: "ds_get (ds self) ''ScanningSequence'' = Some (Str ''RM'')"
    by simp
  have "\<forall>k \<in> set (map fst mr_acquisition_tags).
        k \<noteq> ''ScanningSequence'' \<longrightarrow> ds_get (ds self) k = Some (Str '''')"
    using get by auto
  with r n rm show ?thesis by blast
qed

text \<open>
  C3, witness: \<^verbatim>\<open>B1rms\<close> is one of the 45 keywords, differs from
  \<^verbatim>\<open>ScanningSequence\<close>, and is empty in the MR dataset built in the sample world.
\<close>

theorem mr_acquisition_placeholders_witness:
  "''B1rms'' \<in> set (map fst mr_acquisition_tags) \<and> ''B1rms'' \<noteq> ''ScanningSequence'' \<and>
   mr_attr nii2dcm_temp_filename world0 ''B1rms'' = Inr (Some (Str ''''))"
proof -
  from mr_acquisition_placeholders [of nii2dcm_temp_filename world0]
  obtain self w' where r: "DicomMRI_init nii2dcm_temp_filename world0 = Inr (self, w')"
    and all: "\<forall>k \<in> set (map fst mr_acquisition_tags).
        k \<noteq> ''ScanningSequence'' \<longrightarrow> ds_get (ds self) k = Some (Str '''')"
    by (elim exE conjE) (rule that)
  have mem: "''B1rms'' \<in> set (map fst mr_acquisition_tags)"
    by (simp add: mr_acquisition_tags_def)
  have ne: "''B1rms'' \<noteq> ''ScanningSequence''" by simp
  from bspec [OF all mem] ne have v: "ds_get (ds self) ''B1rms'' = Some (Str '''')"
    by (rule mp)
  have "mr_attr nii2dcm_temp_filename world0 ''B1rms'' = Inr (Some (Str ''''))"
    unfolding mr_attr_def r by (simp add: v)
  with mem ne show ?thesis by (intro conjI)
qed

text \<open>
  C3 as stated has every one of these attributes empty. In the MR dataset built in the
  sample world \<^verbatim>\<open>ScanningSequence\<close>, the first of them, holds \<^verbatim>\<open>RM\<close>.
\<close>

theorem ScanningSequence_counterexample:
  "''ScanningSequence'' \<in> set (map fst mr_acquisition_tags) \<and>
   mr_attr nii2dcm_temp_filename world0 ''ScanningSequence'' = Inr (Some (Str ''RM'')) \<and>
   mr_attr nii2dcm_temp_filename world0 ''ScanningSequence'' \<noteq> Inr (Some (Str ''''))"
proof -
  have mem: "(''ScanningSequence'', Str ''RM'') \<in> set mr_acquisition_tags"
    by (simp add: mr_acquisition_tags_def)
  then have "map_of mr_assignments ''ScanningSequence'' = Some (Str ''RM'')"
    using acquisition_tags_assigned mr_assignments_lookup [of "(''ScanningSequence'', Str ''RM'')"]
    by auto
  then have "mr_attr nii2dcm_temp_filename world0 ''ScanningSequence'' = Inr (Some (Str ''RM''))"
    by (simp add: mr_attr_def DicomMRI_init_result ds_get_assign map_of_rev_distinct
        distinct_mr_assignments)
  moreover from mem have "''ScanningSequence'' \<in> set (map fst mr_acquisition_tags)"
    by force
  ultimately show ?thesis by simp
qed

text \<open>
  C4. The branch of the MR constructor, run on any dataset that holds
  \<^verbatim>\<open>PhotometricInterpretation\<close>, returns without error; it sets
  \<^verbatim>\<open>PresentationLUTShape\<close> to \<^verbatim>\<open>IDENTITY\<close> for \<^verbatim>\<open>MONOCHROME2\<close>, to \<^verbatim>\<open>INVERSE\<close> for
  \<^verbatim>\<open>MONOCHROME1\<close>, and leaves the dataset untouched for any other value. The baseline
  dataset has no \<^verbatim>\<open>PresentationLUTShape\<close>, so in the third case it stays unset. The
  constructor itself always assigns \<^verbatim>\<open>MONOCHROME2\<close> just before the branch, and the
  object it returns holds \<^verbatim>\<open>MONOCHROME2\<close> and \<^verbatim>\<open>IDENTITY\<close>.
\<close>

theorem PresentationLUTShape_by_branch:
  assumes "ds_get d ''PhotometricInterpretation'' = Some p"
  shows "\<exists>d'. PresentationLUTShape_branch d = Inr d' \<and>
     (p = Str ''MONOCHROME2'' \<longrightarrow>
        ds_get d' ''PresentationLUTShape'' = Some (Str ''IDENTITY'')) \<and>
     (p = Str ''MONOCHROME1'' \<longrightarrow>
        ds_get d' ''PresentationLUTShape'' = Some (Str ''INVERSE'')) \<and>
     (p \<noteq> Str ''MONOCHROME2'' \<and> p \<noteq> Str ''MONOCHROME1'' \<longrightarrow>
        d' = d \<and> ds_get d' ''PresentationLUTShape'' = ds_get d ''PresentationLUTShape'') \<and>
     (\<exists>self w'. DicomMRI_init fname w = Inr (self, w') \<and>
        ds_get (ds (fst (Dicom_init fname w))) ''PresentationLUTShape'' = None \<and>
        ds_get (ds self) ''PhotometricInterpretation'' = Some (Str ''MONOCHROME2'') \<and>
        ds_get (ds self) ''PresentationLUTShape'' = Some (Str ''IDENTITY''))"
proof -
  have lut: "ds_get (ds_set ''PresentationLUTShape'' v d) ''PresentationLUTShape'' = Some v" for v
    by (simp add: ds_set_as_assign ds_get_assign)
  have branch: "\<exists>d'. PresentationLUTShape_branch d = Inr d' \<and>
     (p = Str ''MONOCHROME2'' \<longrightarrow>
        ds_get d' ''PresentationLUTShape'' = Some (Str ''IDENTITY'')) \<and>
     (p = Str ''MONOCHROME1'' \<longrightarrow>
        ds_get d' ''PresentationLUTShape'' = Some (Str ''INVERSE'')) \<and>
     (p \<noteq> Str ''MONOCHROME2'' \<and> p \<noteq> Str ''MONOCHROME1'' \<longrightarrow>
        d' = d \<and> ds_get d' ''PresentationLUTShape'' = ds_get d ''PresentationLUTShape'')"
    using assms by (simp add: PresentationLUTShape_branch_def lut)
  obtain self w' where r: "DicomMRI_init fname w = Inr (self, w')"
    by (simp add: DicomMRI_init_result)
  have none: "ds_get (ds (fst (Dicom_init fname w))) ''PresentationLUTShape'' = None"
    unfolding Dicom_init_get world_get_simps
    by (simp add: baseline_elements_def general_tags_def timestamp_tags_def image_tags_def)
  have pi: "ds_get (ds self) ''PhotometricInterpretation'' = Some (Str ''MONOCHROME2'')"
    by (simp add: DicomMRI_init_get [OF r] mr_assignments_def)
  have id: "ds_get (ds self) ''PresentationLUTShape'' = Some (Str ''IDENTITY'')"
    by (simp add: DicomMRI_init_get [OF r] mr_assignments_def)
  from r none pi id have "\<exists>self w'. DicomMRI_init fname w = Inr (self, w') \<and>
        ds_get (ds (fst (Dicom_init fname w))) ''PresentationLUTShape'' = None \<and>
        ds_get (ds self) ''PhotometricInterpretation'' = Some (Str ''MONOCHROME2'') \<and>
        ds_get (ds self) ''PresentationLUTShape'' = Some (Str ''IDENTITY'')"
    by (intro exI conjI)
  with branch show ?thesis by (elim exE conjE) (intro exI conjI; assumption)
qed

text \<open>
  C4, witness: the branch run on three sample datasets, one for each case.
\<close>

theorem PresentationLUTShape_by_branch_witness:
  "ds_get (sample_dataset ''MONOCHROME2'') ''PhotometricInterpretation'' =
     Some (Str ''MONOCHROME2'') \<and>
   (\<exists>d'. PresentationLUTShape_branch (sample_dataset ''MONOCHROME2'') = Inr d' \<and>
      ds_get d' ''PresentationLUTShape'' = Some (Str ''IDENTITY'')) \<and>
   ds_get (sample_dataset ''MONOCHROME1'') ''PhotometricInterpretation'' =
     Some (Str ''MONOCHROME1'') \<and>
   (\<exists>d'. PresentationLUTShape_branch (sample_dataset ''MONOCHROME1'') = Inr d' \<and>
      ds_get d' ''PresentationLUTShape'' = Some (Str ''INVERSE'')) \<and>
   ds_get (sample_dataset ''RGB'') ''PhotometricInterpretation'' = Some (Str ''RGB'') \<and>
   PresentationLUTShape_branch (sample_dataset ''RGB'') = Inr (sample_dataset ''RGB'') \<and>
   ds_get (sample_dataset ''RGB'') ''PresentationLUTShape'' = None"
proof -
  have h2: "ds_get (sample_dataset ''MONOCHROME2'') ''PhotometricInterpretation'' =
     Some (Str ''MONOCHROME2'')"
    by (simp add: sample_dataset_get)
  have h1: "ds_get (sample_dataset ''MONOCHROME1'') ''PhotometricInterpretation'' =
     Some (Str ''MONOCHROME1'')"
    by (simp add: sample_dataset_get)
  have h0: "ds_get (sample_dataset ''RGB'') ''PhotometricInterpretation'' = Some (Str ''RGB'')"
    by (simp add: sample_dataset_get)
  have c2: "\<exists>d'. PresentationLUTShape_branch (sample_dataset ''MONOCHROME2'') = Inr d' \<and>
      ds_get d' ''PresentationLUTShape'' = Some (Str ''IDENTITY'')"
    using PresentationLUTShape_by_branch [OF h2, of nii2dcm_temp_filename world0] by auto
  have c1: "\<exists>d'. PresentationLUTShape_branch (sample_dataset ''MONOCHROME1'') = Inr d' \<and>
      ds_get d' ''PresentationLUTShape'' = Some (Str ''INVERSE'')"
    using PresentationLUTShape_by_branch [OF h1, of nii2dcm_temp_filename world0] by auto
  have c0: "PresentationLUTShape_branch (sample_dataset ''RGB'') = Inr (sample_dataset ''RGB'')"
    using PresentationLUTShape_by_branch [OF h0, of nii2dcm_temp_filename world0] by auto
  have n: "ds_get (sample_dataset ''RGB'') ''PresentationLUTShape'' = None"
    by (simp add: sample_dataset_get)
  from h2 c2 h1 c1 h0 c0 n show ?thesis by (intro conjI)
qed

text \<open>
  C5. If the UID generator never repeats a value and never returns the empty string,
  then \<^verbatim>\<open>StudyInstanceUID\<close>, \<^verbatim>\<open>SeriesInstanceUID\<close> and \<^verbatim>\<open>FrameOfReferenceUID\<close> of a
  baseline object are non-empty strings, and together with the three identifiers of a
  second object, constructed at any later state \<open>w2\<close> of the same generator, they are six
  different strings.
\<close>

theorem generated_uids_fresh:
  assumes "inj (uid_source w)" and "\<forall>n. uid_source w n \<noteq> []"
    and "uid_source w2 = uid_source w"
    and "uid_calls (snd (Dicom_init fname1 w)) \<le> uid_calls w2"
  shows "\<exists>us vs.
     generated_uids (fst (Dicom_init fname1 w)) = map (\<lambda>u. Some (Str u)) us \<and>
     generated_uids (fst (Dicom_init fname2 w2)) = map (\<lambda>u. Some (Str u)) vs \<and>
     length us = 3 \<and> length vs = 3 \<and> [] \<notin> set (us @ vs) \<and> distinct (us @ vs)"
proof -
  define c where "c = uid_calls w"
  define c2 where "c2 = uid_calls w2"
  define us where "us = [uid_source w c, uid_source w (Suc c), uid_source w (Suc (Suc c))]"
  define vs where "vs = [uid_source w c2, uid_source w (Suc c2), uid_source w (Suc (Suc c2))]"
  have later: "Suc (Suc (Suc c)) \<le> c2"
    using assms(4) by (simp only: Dicom_init_uid_state c_def c2_def)
  have a: "generated_uids (fst (Dicom_init fname1 w)) = map (\<lambda>u. Some (Str u)) us"
    by (simp only: generated_uids_Dicom_init us_def c_def)
  have b: "generated_uids (fst (Dicom_init fname2 w2)) = map (\<lambda>u. Some (Str u)) vs"
    by (simp only: generated_uids_Dicom_init assms(3) vs_def c2_def)
  have eq: "uid_source w m = uid_source w n \<longleftrightarrow> m = n" for m n
    using assms(1) by (simp add: inj_eq)
  have "length us = 3" "length vs = 3" by (simp_all add: us_def vs_def)
  moreover have "[] \<notin> set (us @ vs)"
    using assms(2) by (auto simp: us_def vs_def dest: sym)
  moreover have "distinct (us @ vs)"
    using later by (auto simp: us_def vs_def eq)
  ultimately show ?thesis using a b by blast
qed

text \<open>
  C5, witness: the sample generator is injective and never empty, and two constructions
  in the sample world, the second in the state that the first leaves, yield six
  different non-empty identifiers.
\<close>

theorem generated_uids_fresh_witness:
  "inj (uid_source world0) \<and> (\<forall>n. uid_source world0 n \<noteq> []) \<and>
   uid_source (snd (Dicom_init ''a.dcm'' world0)) = uid_source world0 \<and>
   uid_calls (snd (Dicom_init ''a.dcm'' world0)) \<le>
     uid_calls (snd (Dicom_init ''a.dcm'' world0)) \<and>
   (\<exists>us vs.
     generated_uids (fst (Dicom_init ''a.dcm'' world0)) = map (\<lambda>u. Some (Str u)) us \<and>
     generated_uids (fst (Dicom_init ''b.dcm'' (snd (Dicom_init ''a.dcm'' world0)))) =
       map (\<lambda>u. Some (Str u)) vs \<and>
     length us = 3 \<and> length vs = 3 \<and> [] \<notin> set (us @ vs) \<and> distinct (us @ vs))"
proof -
  have i: "inj (uid_source world0)"
    by (simp add: world0_def sample_uids_inj)
  have n: "\<forall>n. uid_source world0 n \<noteq> []"
    by (simp add: world0_def sample_uids_def)
  have s: "uid_source (snd (Dicom_init ''a.dcm'' world0)) = uid_source world0"
    by (simp only: Dicom_init_uid_state)
  have l: "uid_calls (snd (Dicom_init ''a.dcm'' world0)) \<le>
     uid_calls (snd (Dicom_init ''a.dcm'' world0))"
    by (rule order_refl)
  from i n s l generated_uids_fresh [OF i n s l, of "''b.dcm''"] show ?thesis
    by (intro conjI)
qed

text \<open>
  C6. Running \<open>dcm_dictionary_update\<close> a second time leaves the tag dictionary and the
  reverse keyword-to-tag map exactly as the first run left them, whatever the two
  dictionaries held before: same keys, same values, same order.
\<close>

theorem dcm_dictionary_update_idempotent:
  "dcm_dictionary_update (dcm_dictionary_update w) = dcm_dictionary_update w"
  by (simp add: dcm_dictionary_update_def dict_update_twice distinct_new_dict_items
      new_names_dict_def distinct_dict_of_pairs)

text \<open>
  C7. Built from the same file name in the same world, the MR object agrees with the
  baseline object on every data element that the baseline holds, apart from
  \<^verbatim>\<open>Modality\<close> and \<^verbatim>\<open>SOPClassUID\<close> (\<^verbatim>\<open>PresentationLUTShape\<close> is not a baseline
  element); the elements it holds beyond those are the ones listed in
  \<open>mr_added_keywords\<close>; file name, file-meta reference, preamble and the two encoding
  flags are the same; the file-meta header differs only in \<^verbatim>\<open>MediaStorageSOPClassUID\<close>;
  and the world differs only in that header.
\<close>

theorem mr_extends_baseline:
  "\<exists>b wb m wm. Dicom_init fname w = (b, wb) \<and> DicomMRI_init fname w = Inr (m, wm) \<and>
     (\<forall>k. ds_get (ds b) k \<noteq> None \<and>
          k \<notin> {''Modality'', ''SOPClassUID'', ''PresentationLUTShape''} \<longrightarrow>
          ds_get (ds m) k = ds_get (ds b) k) \<and>
     (\<forall>k. ds_get (ds b) k = None \<and> ds_get (ds m) k \<noteq> None \<longrightarrow>
          k \<in> set mr_added_keywords) \<and>
     m\<lparr>ds := ds b\<rparr> = b \<and>
     (ds m)\<lparr>elements := elements (ds b)\<rparr> = ds b \<and>
     (\<forall>k. k \<noteq> ''MediaStorageSOPClassUID'' \<longrightarrow>
          meta_get wm (file_meta m) k = meta_get wb (file_meta b) k) \<and>
     wm\<lparr>heap := heap wb\<rparr> = wb"
proof -
  define b where "b = fst (Dicom_init fname w)"
  define wb where "wb = snd (Dicom_init fname w)"
  define m where "m = b\<lparr>ds := ds_assign mr_assignments (ds b)\<rparr>"
  define wm where "wm = meta_set (file_meta b) ''MediaStorageSOPClassUID''
            (Str ''1.2.840.10008.5.1.4.1.1.4'') wb"
  have base: "Dicom_init fname w = (b, wb)"
    by (simp add: b_def wb_def)
  have mr: "DicomMRI_init fname w = Inr (m, wm)"
    by (simp only: DicomMRI_init_result m_def wm_def b_def wb_def)
  have get_b: "ds_get (ds b) k = map_of (world_elements w) k" for k
    by (simp only: b_def Dicom_init_get)
  have get_m: "ds_get (ds m) k =
      (case map_of mr_assignments k of Some v \<Rightarrow> Some v | None \<Rightarrow> ds_get (ds b) k)" for k
    by (simp only: DicomMRI_init_get [OF mr] get_b)
  have keys: "map_of mr_assignments k \<noteq> None \<longleftrightarrow>
      k \<in> {''Modality'', ''SOPClassUID'', ''ImageType''} \<union> set mr_added_keywords" for k
    by (simp only: map_of_eq_None_iff mr_assignments_keys not_not)
  have added: "ds_get (ds b) k = None" if "k \<in> set mr_added_keywords" for k
    using that by (simp only: get_b world_elements_def mr_added_unset_in_baseline)
  have it: "ds_get (ds b) ''ImageType'' = Some (StrList [''DERIVED'', ''SECONDARY''])"
    by (simp only: get_b world_elements_def baseline_ImageType)
  have over: "ds_get (ds b) ''Modality'' \<noteq> None" "ds_get (ds b) ''SOPClassUID'' \<noteq> None"
    using baseline_overridden_present by (simp_all add: get_b world_elements_def)
  have same: "ds_get (ds m) k = ds_get (ds b) k"
    if "ds_get (ds b) k \<noteq> None \<and>
        k \<notin> {''Modality'', ''SOPClassUID'', ''PresentationLUTShape''}" for k
  proof (cases "map_of mr_assignments k")
    case None
    then show ?thesis by (simp add: get_m)
  next
    case (Some v)
    then have "k \<in> {''Modality'', ''SOPClassUID'', ''ImageType''} \<union> set mr_added_keywords"
      using keys [of k] by simp
    with that added [of k] have k: "k = ''ImageType''" by auto
    show ?thesis unfolding k get_m mr_ImageType it by simp
  qed
  have new: "k \<in> set mr_added_keywords"
    if "ds_get (ds b) k = None \<and> ds_get (ds m) k \<noteq> None" for k
  proof -
    from that have "map_of mr_assignments k \<noteq> None"
      by (auto simp: get_m split: option.splits)
    then have "k \<in> {''Modality'', ''SOPClassUID'', ''ImageType''} \<union> set mr_added_keywords"
      by (simp only: keys)
    with that over it show ?thesis by auto
  qed
  have rec: "m\<lparr>ds := ds b\<rparr> = b" "(ds m)\<lparr>elements := elements (ds b)\<rparr> = ds b"
    by (simp_all add: m_def ds_assign_def)
  have meta: "meta_get wm (file_meta m) k = meta_get wb (file_meta b) k"
    if "k \<noteq> ''MediaStorageSOPClassUID''" for k
    using that by (simp add: wm_def m_def meta_get_meta_set)
  have heap: "wm\<lparr>heap := heap wb\<rparr> = wb"
    by (simp only: wm_def meta_set_heap_only)
  from base mr same new rec meta heap show ?thesis
    by (intro exI conjI allI impI)
qed

text \<open>
  C7, witness in the sample world: \<^verbatim>\<open>PatientName\<close> is a baseline element and is
  carried over, \<^verbatim>\<open>BitsAllocated\<close> is new and listed, and \<^verbatim>\<open>TransferSyntaxUID\<close> of the
  file-meta header is unchanged.
\<close>

theorem mr_extends_baseline_witness:
  "\<exists>b wb m wm.
     Dicom_init nii2dcm_temp_filename world0 = (b, wb) \<and>
     DicomMRI_init nii2dcm_temp_filename world0 = Inr (m, wm) \<and>
     (ds_get (ds b) ''PatientName'' \<noteq> None \<and>
      ''PatientName'' \<notin> {''Modality'', ''SOPClassUID'', ''PresentationLUTShape''}) \<and>
     ds_get (ds m) ''PatientName'' = ds_get (ds b) ''PatientName'' \<and>
     (ds_get (ds b) ''BitsAllocated'' = None \<and> ds_get (ds m) ''BitsAllocated'' \<noteq> None) \<and>
     ''BitsAllocated'' \<in> set mr_added_keywords \<and>
     ''TransferSyntaxUID'' \<noteq> ''MediaStorageSOPClassUID'' \<and>
     meta_get wm (file_meta m) ''TransferSyntaxUID'' =
       meta_get wb (file_meta b) ''TransferSyntaxUID''"
proof -
  from mr_extends_baseline [of nii2dcm_temp_filename world0]
  obtain b wb m wm
    where base: "Dicom_init nii2dcm_temp_filename world0 = (b, wb)"
      and mr: "DicomMRI_init nii2dcm_temp_filename world0 = Inr (m, wm)"
      and same: "\<forall>k. ds_get (ds b) k \<noteq> None \<and>
          k \<notin> {''Modality'', ''SOPClassUID'', ''PresentationLUTShape''} \<longrightarrow>
          ds_get (ds m) k = ds_get (ds b) k"
      and new: "\<forall>k. ds_get (ds b) k = None \<and> ds_get (ds m) k \<noteq> None \<longrightarrow>
          k \<in> set mr_added_keywords"
      and meta: "\<forall>k. k \<noteq> ''MediaStorageSOPClassUID'' \<longrightarrow>
          meta_get wm (file_meta m) k = meta_get wb (file_meta b) k"
    by (elim exE conjE) (rule that)
  from base have b: "b = fst (Dicom_init nii2dcm_temp_filename world0)" by simp
  have pn: "map_of (baseline_elements d t u1 u2 u3) ''PatientName'' \<noteq> None" for d t u1 u2 u3
    by (simp add: baseline_elements_def general_tags_def)
  have h1: "ds_get (ds b) ''PatientName'' \<noteq> None \<and>
      ''PatientName'' \<notin> {''Modality'', ''SOPClassUID'', ''PresentationLUTShape''}"
    unfolding b Dicom_init_get world_elements_def using pn by simp
  have ba: "map_of mr_assignments ''BitsAllocated'' = Some (IntV 16)"
    by (simp add: mr_assignments_def bits_tags_def)
  have bm: "''BitsAllocated'' \<in> set mr_added_keywords"
    by (simp add: mr_added_keywords_def bits_tags_def)
  have h2: "ds_get (ds b) ''BitsAllocated'' = None \<and> ds_get (ds m) ''BitsAllocated'' \<noteq> None"
    unfolding DicomMRI_init_get [OF mr] ba b Dicom_init_get world_elements_def
    using mr_added_unset_in_baseline [OF bm] by simp
  have h3: "''TransferSyntaxUID'' \<noteq> ''MediaStorageSOPClassUID''" by simp
  have c1: "ds_get (ds m) ''PatientName'' = ds_get (ds b) ''PatientName''"
    by (rule same [rule_format, OF h1])
  have c2: "''BitsAllocated'' \<in> set mr_added_keywords"
    by (rule new [rule_format, OF h2])
  have c3: "meta_get wm (file_meta m) ''TransferSyntaxUID'' =
       meta_get wb (file_meta b) ''TransferSyntaxUID''"
    by (rule meta [rule_format, OF h3])
  from base mr conjunct1 [OF h1] conjunct2 [OF h1] c1 conjunct1 [OF h2] conjunct2 [OF h2]
    c2 h3 c3
  have "Dicom_init nii2dcm_temp_filename world0 = (b, wb) \<and>
     DicomMRI_init nii2dcm_temp_filename world0 = Inr (m, wm) \<and>
     (ds_get (ds b) ''PatientName'' \<noteq> None \<and>
      ''PatientName'' \<notin> {''Modality'', ''SOPClassUID'', ''PresentationLUTShape''}) \<and>
     ds_get (ds m) ''PatientName'' = ds_get (ds b) ''PatientName'' \<and>
     (ds_get (ds b) ''BitsAllocated'' = None \<and> ds_get (ds m) ''BitsAllocated'' \<noteq> None) \<and>
     ''BitsAllocated'' \<in> set mr_added_keywords \<and>
     ''TransferSyntaxUID'' \<noteq> ''MediaStorageSOPClassUID'' \<and>
     meta_get wm (file_meta m) ''TransferSyntaxUID'' =
       meta_get wb (file_meta b) ''TransferSyntaxUID''"
    by (intro conjI)
  then show ?thesis
    apply (rule_tac x = b in exI)
    apply (rule_tac x = wb in exI)
    apply (rule_tac x = m in exI)
    apply (rule_tac x = wm in exI)
    apply assumption
    done
qed

text \<open>
  C8. In a baseline object \<^verbatim>\<open>SOPClassUID\<close> and \<^verbatim>\<open>Modality\<close> are the empty string, and
  \<open>save_as\<close> hands the dataset to the writer with both still empty: nothing checks them.
\<close>

theorem baseline_class_and_modality_empty:
  "\<exists>self w'. Dicom_init fname w = (self, w') \<and>
     ds_get (ds self) ''SOPClassUID'' = Some (Str '''') \<and>
     ds_get (ds self) ''Modality'' = Some (Str '''') \<and>
     ds_get (snd (snd (save_as self cwd))) ''SOPClassUID'' = Some (Str '''') \<and>
     ds_get (snd (snd (save_as self cwd))) ''Modality'' = Some (Str '''')"
proof -
  obtain self w' where r: "Dicom_init fname w = (self, w')"
    by (cases "Dicom_init fname w")
  then have self: "self = fst (Dicom_init fname w)" by simp
  have "ds_get (ds self) ''SOPClassUID'' = Some (Str '''')"
    unfolding self Dicom_init_get world_get_simps
    by (simp add: baseline_elements_def general_tags_def)
  moreover have "ds_get (ds self) ''Modality'' = Some (Str '''')"
    unfolding self Dicom_init_get world_get_simps
    by (simp add: baseline_elements_def general_tags_def)
  ultimately show ?thesis using r by (simp add: save_as_def)
qed

text \<open>
  C9. In a baseline object the file-meta header holds \<^verbatim>\<open>TransferSyntaxUID\<close> =
  \<^verbatim>\<open>1.2.840.10008.1.2.1\<close> and \<^verbatim>\<open>ImplementationVersionName\<close> = \<^verbatim>\<open>nii2dcm_DICOM\<close>; the
  object and its dataset carry the given file name; the dataset refers to the very
  file-meta header of the object; and the preamble is 128 bytes, each zero.
\<close>

theorem baseline_file_meta_and_binding:
  "\<exists>self w'. Dicom_init fname w = (self, w') \<and>
     meta_get w' (get_file_meta self) ''TransferSyntaxUID'' = Some (Str ''1.2.840.10008.1.2.1'') \<and>
     meta_get w' (get_file_meta self) ''ImplementationVersionName'' = Some (Str ''nii2dcm_DICOM'') \<and>
     filename self = fname \<and>
     fd_filename (get_dataset self) = fname \<and>
     fd_file_meta (get_dataset self) = get_file_meta self \<and>
     preamble (get_dataset self) = replicate 128 0 \<and>
     length (preamble (get_dataset self)) = 128 \<and>
     set (preamble (get_dataset self)) = {0}"
  by (simp add: Dicom_init_result meta_get_def get_file_meta_def get_dataset_def dict_get_def
      baseline_meta_def)

text \<open>
  C10. In a baseline object \<^verbatim>\<open>PatientName\<close>, \<^verbatim>\<open>PatientID\<close>, \<^verbatim>\<open>AccessionNumber\<close> and
  \<^verbatim>\<open>InstitutionName\<close> hold fixed non-empty dummy strings, and \<open>save_as\<close> hands the
  dataset to the writer unchanged, so they reach the output unless the caller has
  overwritten them.
\<close>

theorem baseline_identity_dummies:
  "\<exists>self w'. Dicom_init fname w = (self, w') \<and>
     ds_get (ds self) ''PatientName'' = Some (Str ''Test^Firstname'') \<and>
     ds_get (ds self) ''PatientID'' = Some (Str ''12345678'') \<and>
     ds_get (ds self) ''AccessionNumber'' = Some (Str ''ABCXYZ'') \<and>
     ds_get (ds self) ''InstitutionName'' = Some (Str ''INSTITUTION_NAME_NONE'') \<and>
     snd (snd (save_as self cwd)) = ds self"
proof -
  obtain self w' where r: "Dicom_init fname w = (self, w')"
    by (cases "Dicom_init fname w")
  then have self: "self = fst (Dicom_init fname w)" by simp
  have "ds_get (ds self) ''PatientName'' = Some (Str ''Test^Firstname'')"
    unfolding self Dicom_init_get world_get_simps
    by (simp add: baseline_elements_def general_tags_def)
  moreover have "ds_get (ds self) ''PatientID'' = Some (Str ''12345678'')"
    unfolding self Dicom_init_get world_get_simps
    by (simp add: baseline_elements_def general_tags_def)
  moreover have "ds_get (ds self) ''AccessionNumber'' = Some (Str ''ABCXYZ'')"
    unfolding self Dicom_init_get world_get_simps
    by (simp add: baseline_elements_def general_tags_def)
  moreover have "ds_get (ds self) ''InstitutionName'' = Some (Str ''INSTITUTION_NAME_NONE'')"
    unfolding self Dicom_init_get world_get_simps
    by (simp add: baseline_elements_def general_tags_def)
  ultimately show ?thesis using r by (simp add: save_as_def)
qed

end
